theory Spec2Isabelle
  imports Main "HOL-Library.Sublist"
begin

section \<open>The session and request layer of lib/api.ts\<close>

text \<open>
  The module \<^verbatim>\<open>lib/api.ts\<close> keeps a bearer token in \<^verbatim>\<open>localStorage\<close>, builds
  the headers of every request from it, hands the request to \<^verbatim>\<open>fetch\<close> and turns
  whatever comes back (a response, or a thrown value) into an \<^verbatim>\<open>ApiResponse\<close>.
  The embedding below follows the TypeScript function by function. What the
  platform provides (the local storage, the network, \<^verbatim>\<open>JSON.stringify\<close>,
  \<^verbatim>\<open>JSON.parse\<close>, \<^verbatim>\<open>Number.prototype.toString\<close>, the environment variable) is
  state or a parameter of the model. The sample platform at the end of the
  definitions only instantiates these parameters for the concrete runs.
\<close>

subsection \<open>JavaScript values\<close>

text \<open>
  A value of type \<^verbatim>\<open>string | null\<close> or \<^verbatim>\<open>string | undefined\<close> is a
  \<^typ>\<open>string option\<close>. Such a value is truthy when it is a non-empty string;
  \<^verbatim>\<open>a || b\<close> is \<^verbatim>\<open>a\<close> when \<^verbatim>\<open>a\<close> is truthy and \<^verbatim>\<open>b\<close> otherwise.
\<close>

definition truthy :: "string option \<Rightarrow> bool" where
  "truthy v = (case v of None \<Rightarrow> False | Some s \<Rightarrow> s \<noteq> [])"

definition js_or :: "string option \<Rightarrow> string option \<Rightarrow> string option" where
  "js_or a b = (if truthy a then a else b)"

text \<open>
  A thrown value is either an instance of \<^verbatim>\<open>Error\<close>, which carries a message, or
  something else.
\<close>

datatype js_thrown = ErrorObj string | NonError

text \<open>\<^verbatim>\<open>String.prototype.includes\<close>: the argument occurs as a contiguous substring.\<close>

fun str_includes :: "string \<Rightarrow> string \<Rightarrow> bool" where
  "str_includes [] sub = (sub = [])"
| "str_includes (c # cs) sub = (prefix sub (c # cs) \<or> str_includes cs sub)"

text \<open>
  The decimal digits of a natural number, as a template literal prints an
  integer-valued number such as an HTTP status.
\<close>

definition digit_char :: "nat \<Rightarrow> char" where
  "digit_char d = ''0123456789'' ! d"

fun nat_toString :: "nat \<Rightarrow> string" where
  "nat_toString n =
     (if n < 10 then [digit_char n] else nat_toString (n div 10) @ [digit_char (n mod 10)])"

declare nat_toString.simps [simp del]

subsection \<open>Requests, responses and the world\<close>

datatype http_method = GET | POST | PUT | DELETE

type_synonym headers = "string \<rightharpoonup> string"

text \<open>
  The \<^verbatim>\<open>RequestInit\<close> object built by \<^verbatim>\<open>apiCall\<close>. The field \<open>body\<close> is
  absent unless \<^verbatim>\<open>apiCall\<close> assigns it. A request is the URL together with
  this object, the two arguments of \<^verbatim>\<open>fetch\<close>.
\<close>

record RequestInit =
  method' :: http_method
  headers :: headers
  body :: "string option"

type_synonym request = "string \<times> RequestInit"

text \<open>
  What \<^verbatim>\<open>apiCall\<close> reads of a \<^verbatim>\<open>Response\<close>: the status, the
  \<^verbatim>\<open>content-type\<close> header (\<^verbatim>\<open>headers.get\<close> gives \<^verbatim>\<open>null\<close> when there is none)
  and the body, whose reading can itself fail.
\<close>

record response =
  status :: nat
  content_type :: "string option"
  payload :: "js_thrown + string"

text \<open>\<^verbatim>\<open>Response.ok\<close> of the Fetch standard: the status is in the range 200 to 299.\<close>

definition ok :: "response \<Rightarrow> bool" where
  "ok r = (200 \<le> status r \<and> status r \<le> 299)"

text \<open>
  The world: \<open>storage\<close> is the content of \<^verbatim>\<open>localStorage\<close>, or \<open>None\<close> where
  \<^verbatim>\<open>typeof window === "undefined"\<close>; \<open>clock\<close> is the current time in
  milliseconds since the epoch; \<open>sent\<close> lists the requests handed to \<^verbatim>\<open>fetch\<close>
  so far, oldest first.
\<close>

record world =
  storage :: "(string \<rightharpoonup> string) option"
  clock :: int
  sent :: "request list"

subsection \<open>Session store\<close>

definition getStoredToken :: "world \<Rightarrow> string option" where
  "getStoredToken w =
     (case storage w of
        None \<Rightarrow> None
      | Some localStorage \<Rightarrow> localStorage ''auth_token'')"

text \<open>
  \<^verbatim>\<open>expiresAt.toString()\<close> is a parameter: the rendering of a JavaScript number
  is the platform's.
\<close>

definition setStoredToken :: "('n \<Rightarrow> string) \<Rightarrow> string \<Rightarrow> 'n \<Rightarrow> world \<Rightarrow> world" where
  "setStoredToken toString token expiresAt w =
     (case storage w of
        None \<Rightarrow> w
      | Some localStorage \<Rightarrow>
          w\<lparr>storage := Some ((localStorage(''auth_token'' \<mapsto> token))
                                 (''auth_expires'' \<mapsto> toString expiresAt))\<rparr>)"

definition clearStoredToken :: "world \<Rightarrow> world" where
  "clearStoredToken w =
     (case storage w of
        None \<Rightarrow> w
      | Some localStorage \<Rightarrow>
          w\<lparr>storage := Some ((localStorage(''auth_token'' := None))
                                 (''auth_expires'' := None))\<rparr>)"

subsection \<open>Headers\<close>

definition getHeaders :: "string option \<Rightarrow> world \<Rightarrow> headers" where
  "getHeaders token w =
     (let headers = [''Content-Type'' \<mapsto> ''application/json''];
          authToken = js_or token (getStoredToken w)
      in case authToken of
           None \<Rightarrow> headers
         | Some t \<Rightarrow> if t \<noteq> [] then headers(''Authorization'' \<mapsto> ''Bearer '' @ t) else headers)"

subsection \<open>The platform\<close>

text \<open>
  What \<^verbatim>\<open>apiCall\<close> uses and the repository does not define: the environment
  variable \<^verbatim>\<open>NEXT_PUBLIC_API_BASE\<close>, \<^verbatim>\<open>JSON.stringify\<close> on a request body
  (a \<^verbatim>\<open>Record<string, unknown>\<close>, here the list of its fields, with values of
  any type \<open>'v\<close>), the JSON parser behind \<^verbatim>\<open>response.json()\<close> (with results of
  any type \<open>'j\<close>), and the network's reaction to a request. Each of them can
  throw.
\<close>

record ('v, 'j) platform =
  NEXT_PUBLIC_API_BASE :: "string option"
  JSON_stringify :: "(string \<times> 'v) list \<Rightarrow> js_thrown + string"
  JSON_parse :: "string \<Rightarrow> js_thrown + 'j"
  network :: "string \<Rightarrow> RequestInit \<Rightarrow> js_thrown + response"

definition API_BASE :: "('v, 'j) platform \<Rightarrow> string" where
  "API_BASE P =
     (case NEXT_PUBLIC_API_BASE P of
        None \<Rightarrow> ''http://localhost:8080''
      | Some s \<Rightarrow> if s \<noteq> [] then s else ''http://localhost:8080'')"

definition fetch ::
  "('v, 'j) platform \<Rightarrow> string \<Rightarrow> RequestInit \<Rightarrow> world \<Rightarrow> (js_thrown + response) \<times> world" where
  "fetch P input init w = (network P input init, w\<lparr>sent := sent w @ [(input, init)]\<rparr>)"

definition response_text :: "response \<Rightarrow> js_thrown + string" where
  "response_text r = payload r"

definition response_json :: "('v, 'j) platform \<Rightarrow> response \<Rightarrow> js_thrown + 'j" where
  "response_json P r = (case payload r of Inl e \<Rightarrow> Inl e | Inr s \<Rightarrow> JSON_parse P s)"

subsection \<open>apiCall\<close>

text \<open>
  \<^verbatim>\<open>ApiResponse<T>\<close>. The field \<open>data\<close> holds either the parsed JSON or the raw
  text of the response, both cast to \<^verbatim>\<open>T\<close> by the source.
\<close>

datatype 'j js_data = Json 'j | Text string

record 'j ApiResponse =
  data :: "'j js_data option"
  error :: "string option"

text \<open>
  The statements of \<^verbatim>\<open>apiCall\<close> that build \<^verbatim>\<open>options\<close> (the first two of its
  \<^verbatim>\<open>try\<close> block). The parameter \<^verbatim>\<open>method\<close> defaults to \<^verbatim>\<open>"GET"\<close>; a body, being
  an object, is truthy whenever it is given.
\<close>

definition requestInit ::
  "('v, 'j) platform \<Rightarrow> http_method option \<Rightarrow> (string \<times> 'v) list option \<Rightarrow> string option
     \<Rightarrow> world \<Rightarrow> js_thrown + RequestInit" where
  "requestInit P method_arg body_arg token w =
     (let options = \<lparr>method' = (case method_arg of None \<Rightarrow> GET | Some m \<Rightarrow> m),
                       headers = getHeaders token w,
                       body = None\<rparr>
      in case body_arg of
           None \<Rightarrow> Inr options
         | Some b \<Rightarrow>
             (case JSON_stringify P b of
                Inl e \<Rightarrow> Inl e
              | Inr s \<Rightarrow> Inr (options\<lparr>body := Some s\<rparr>)))"

text \<open>The \<^verbatim>\<open>try\<close> block: \<open>Inl\<close> is a value thrown inside it.\<close>

definition apiCall_try ::
  "('v, 'j) platform \<Rightarrow> string \<Rightarrow> http_method option \<Rightarrow> (string \<times> 'v) list option
     \<Rightarrow> string option \<Rightarrow> world \<Rightarrow> (js_thrown + 'j ApiResponse) \<times> world" where
  "apiCall_try P endpoint method_arg body_arg token w =
     (case requestInit P method_arg body_arg token w of
        Inl e \<Rightarrow> (Inl e, w)
      | Inr options \<Rightarrow>
          (case fetch P (API_BASE P @ endpoint) options w of
             (Inl e, w') \<Rightarrow> (Inl e, w')
           | (Inr response, w') \<Rightarrow>
               if \<not> ok response then
                 (case response_text response of
                    Inl e \<Rightarrow> (Inl e, w')
                  | Inr text \<Rightarrow>
                      (Inr \<lparr>data = None,
                            error = Some (if text \<noteq> [] then text
                                          else ''API error: '' @ nat_toString (status response))\<rparr>,
                       w'))
               else
                 let contentType = content_type response
                 in if (case contentType of
                          None \<Rightarrow> False
                        | Some ct \<Rightarrow> str_includes ct ''application/json'')
                    then (case response_json P response of
                            Inl e \<Rightarrow> (Inl e, w')
                          | Inr d \<Rightarrow> (Inr \<lparr>data = Some (Json d), error = None\<rparr>, w'))
                    else (case response_text response of
                            Inl e \<Rightarrow> (Inl e, w')
                          | Inr text \<Rightarrow> (Inr \<lparr>data = Some (Text text), error = None\<rparr>, w'))))"

text \<open>The \<^verbatim>\<open>catch\<close> clause: \<^verbatim>\<open>err instanceof Error ? err.message : "Unknown error"\<close>.\<close>

definition catch_message :: "js_thrown \<Rightarrow> string" where
  "catch_message err = (case err of ErrorObj message \<Rightarrow> message | NonError \<Rightarrow> ''Unknown error'')"

definition apiCall ::
  "('v, 'j) platform \<Rightarrow> string \<Rightarrow> http_method option \<Rightarrow> (string \<times> 'v) list option
     \<Rightarrow> string option \<Rightarrow> world \<Rightarrow> 'j ApiResponse \<times> world" where
  "apiCall P endpoint method_arg body_arg token w =
     (case apiCall_try P endpoint method_arg body_arg token w of
        (Inl err, w') \<Rightarrow> (\<lparr>data = None, error = Some (catch_message err)\<rparr>, w')
      | (Inr result, w') \<Rightarrow> (result, w'))"

subsection \<open>Domain operations\<close>

definition sendFollowRequest ::
  "('v, 'j) platform \<Rightarrow> string \<Rightarrow> world \<Rightarrow> 'j ApiResponse \<times> world" where
  "sendFollowRequest P username w =
     apiCall P (''/api/follow/'' @ username) (Some POST) (Some []) None w"

definition unfollow ::
  "('v, 'j) platform \<Rightarrow> string \<Rightarrow> world \<Rightarrow> 'j ApiResponse \<times> world" where
  "unfollow P username w =
     apiCall P (''/api/follow/'' @ username) (Some DELETE) None None w"

definition rejectFollowRequest ::
  "('v, 'j) platform \<Rightarrow> string \<Rightarrow> world \<Rightarrow> 'j ApiResponse \<times> world" where
  "rejectFollowRequest P username w =
     apiCall P (''/api/follow/reject/'' @ username) (Some DELETE) None None w"

definition deleteEntry ::
  "('v, 'j) platform \<Rightarrow> string \<Rightarrow> world \<Rightarrow> 'j ApiResponse \<times> world" where
  "deleteEntry P id' w =
     apiCall P (''/api/entries/'' @ id') (Some DELETE) None None w"

text \<open>The requests handed to \<^verbatim>\<open>fetch\<close> between the world \<open>w\<close> and the later world \<open>w'\<close>.\<close>

definition issued :: "world \<Rightarrow> world \<Rightarrow> request list" where
  "issued w w' = drop (length (sent w)) (sent w')"

subsection \<open>Sample platform and worlds\<close>

text \<open>
  Concrete parameters for the instances evaluated below. \<open>sample_stringify\<close> prints
  an object whose values are strings, as \<^verbatim>\<open>JSON.stringify\<close> does when no character
  needs an escape; \<open>sample_parse\<close> knows the one document of the spec's example
  and throws a \<^verbatim>\<open>SyntaxError\<close> on any other text; the network of
  \<open>sample_platform reply\<close> answers every request with \<open>reply\<close>.
\<close>

definition quoted :: "string \<Rightarrow> string" where
  "quoted s = [CHR 0x22] @ s @ [CHR 0x22]"

fun sample_members :: "(string \<times> string) list \<Rightarrow> string" where
  "sample_members [] = []"
| "sample_members [(k, v)] = quoted k @ '':'' @ quoted v"
| "sample_members ((k, v) # kvs) = quoted k @ '':'' @ quoted v @ '','' @ sample_members kvs"

definition sample_stringify :: "(string \<times> string) list \<Rightarrow> js_thrown + string" where
  "sample_stringify b = Inr (''{'' @ sample_members b @ ''}'')"

definition sample_parse :: "string \<Rightarrow> js_thrown + (string \<times> string) list" where
  "sample_parse s =
     (if s = ''{'' @ quoted ''id'' @ '':'' @ quoted ''1'' @ '','' @ quoted ''title'' @ '':'' @ quoted ''x'' @ ''}''
      then Inr [(''id'', ''1''), (''title'', ''x'')]
      else Inl (ErrorObj ''Unexpected token''))"

definition sample_platform ::
  "(js_thrown + response) \<Rightarrow> (string, (string \<times> string) list) platform" where
  "sample_platform reply =
     \<lparr>NEXT_PUBLIC_API_BASE = None,
      JSON_stringify = sample_stringify,
      JSON_parse = sample_parse,
      network = (\<lambda>input init. reply)\<rparr>"

text \<open>A browser with nothing stored, and a context without \<^verbatim>\<open>window\<close>.\<close>

definition empty_browser :: world where
  "empty_browser = \<lparr>storage = Some Map.empty, clock = 0, sent = []\<rparr>"

definition server_side :: world where
  "server_side = \<lparr>storage = None, clock = 0, sent = []\<rparr>"

section \<open>Properties\<close>

subsection \<open>Auxiliary facts\<close>

lemma str_includes_sublist: "str_includes s sub \<longleftrightarrow> sublist sub s"
  by (induction s) (auto simp: sublist_Cons_right)

lemma getHeaders_content_type: "getHeaders token w ''Content-Type'' = Some ''application/json''"
  by (simp add: getHeaders_def Let_def split: option.splits)

lemma getHeaders_explicit:
  "t \<noteq> [] \<Longrightarrow> getHeaders (Some t) w ''Authorization'' = Some (''Bearer '' @ t)"
  by (simp add: getHeaders_def js_or_def truthy_def)

lemma getHeaders_stored:
  "token = None \<or> token = Some [] \<Longrightarrow> getStoredToken w = Some s \<Longrightarrow> s \<noteq> []
     \<Longrightarrow> getHeaders token w ''Authorization'' = Some (''Bearer '' @ s)"
  by (auto simp add: getHeaders_def js_or_def truthy_def)

lemma getHeaders_none:
  "token = None \<or> token = Some [] \<Longrightarrow> getStoredToken w = None \<or> getStoredToken w = Some []
     \<Longrightarrow> getHeaders token w ''Authorization'' = None"
  by (auto simp add: getHeaders_def js_or_def truthy_def)

lemma getHeaders_never_empty:
  "getHeaders token w ''Authorization'' \<noteq> Some ''Bearer ''"
  "getHeaders token w ''Authorization'' \<noteq> Some []"
  by (auto simp add: getHeaders_def js_or_def truthy_def Let_def split: option.splits)

lemma requestInit_headers:
  "requestInit P m b token w = Inr init \<Longrightarrow> headers init = getHeaders token w"
  by (auto simp add: requestInit_def Let_def split: option.splits sum.splits)

lemma requestInit_method:
  "requestInit P m b token w = Inr init \<Longrightarrow> method' init = (case m of None \<Rightarrow> GET | Some x \<Rightarrow> x)"
  by (auto simp add: requestInit_def Let_def split: option.splits sum.splits)

lemma sent_apiCall_try:
  "sent (snd (apiCall_try P endpoint m b token w)) =
     sent w @ (case requestInit P m b token w of
                 Inl e \<Rightarrow> []
               | Inr init \<Rightarrow> [(API_BASE P @ endpoint, init)])"
  by (simp add: apiCall_try_def fetch_def Let_def split: sum.splits prod.splits)

lemma snd_apiCall: "snd (apiCall P endpoint m b token w) = snd (apiCall_try P endpoint m b token w)"
  by (simp add: apiCall_def split: sum.splits prod.splits)

lemma issued_apiCall:
  "issued w (snd (apiCall P endpoint m b token w)) =
     (case requestInit P m b token w of
        Inl e \<Rightarrow> []
      | Inr init \<Rightarrow> [(API_BASE P @ endpoint, init)])"
  by (simp add: issued_def snd_apiCall sent_apiCall_try)

subsection \<open>Session store\<close>

text \<open>
  Claim C6. Where persistent storage is available, for every token \<open>t\<close> and expiry
  \<open>e\<close> (and every rendering of the expiry), \<^verbatim>\<open>setStoredToken(t, e)\<close> followed by
  \<^verbatim>\<open>getStoredToken()\<close> returns \<open>t\<close>, and after a subsequent
  \<^verbatim>\<open>clearStoredToken()\<close> it returns \<^verbatim>\<open>null\<close>.
\<close>

theorem session_roundtrip:
  assumes "storage w = Some localStorage"
  shows "getStoredToken (setStoredToken toString t e w) = Some t \<and>
         getStoredToken (clearStoredToken (setStoredToken toString t e w)) = None"
  using assms by (simp add: getStoredToken_def setStoredToken_def clearStoredToken_def)

theorem session_roundtrip_witness:
  "storage empty_browser = Some Map.empty \<and>
   getStoredToken (setStoredToken nat_toString ''abc'' 1700000000000 empty_browser) = Some ''abc'' \<and>
   getStoredToken (clearStoredToken (setStoredToken nat_toString ''abc'' 1700000000000 empty_browser)) = None"
proof -
  have h: "storage empty_browser = Some Map.empty"
    by (simp add: empty_browser_def)
  show ?thesis
    using h session_roundtrip [OF h, of nat_toString "''abc''" 1700000000000] by simp
qed

subsection \<open>Facts about the sample platform and worlds\<close>

lemma issued_sample_no_body:
  "issued w (snd (apiCall (sample_platform reply) endpoint m None token w)) =
     [(''http://localhost:8080'' @ endpoint,
       \<lparr>method' = (case m of None \<Rightarrow> GET | Some x \<Rightarrow> x), headers = getHeaders token w, body = None\<rparr>)]"
  by (simp add: issued_apiCall requestInit_def API_BASE_def sample_platform_def)

lemma stored_after_set:
  "getStoredToken (setStoredToken toString t e empty_browser) = Some t"
  by (simp add: getStoredToken_def setStoredToken_def empty_browser_def)

lemma stored_server_side: "getStoredToken server_side = None"
  by (simp add: getStoredToken_def server_side_def)

lemma stored_empty_browser: "getStoredToken empty_browser = None"
  by (simp add: getStoredToken_def empty_browser_def)

subsection \<open>Authorization header\<close>

text \<open>
  Claim C1. Every request that \<^verbatim>\<open>apiCall\<close> hands to \<^verbatim>\<open>fetch\<close> carries the headers
  of \<^verbatim>\<open>getHeaders\<close>. A token is a non-empty string (the empty string is falsy in
  JavaScript and counts as none). If the explicit argument is a token \<open>t\<close>, the
  \<^verbatim>\<open>Authorization\<close> header is exactly \<^verbatim>\<open>Bearer\<close>, a space and \<open>t\<close>; if there is no
  explicit token and the session store holds a token \<open>s\<close>, it is \<^verbatim>\<open>Bearer\<close>, a
  space and \<open>s\<close>; if neither is available, the headers have no
  \<^verbatim>\<open>Authorization\<close> entry. In no case is the header empty or a bare
  \<^verbatim>\<open>Bearer\<close> prefix.
\<close>

theorem authorization_header:
  assumes "req \<in> set (issued w (snd (apiCall P endpoint m b token w)))"
  shows "headers (snd req) = getHeaders token w \<and>
         (token = Some t \<and> t \<noteq> [] \<longrightarrow>
            headers (snd req) ''Authorization'' = Some (''Bearer '' @ t)) \<and>
         ((token = None \<or> token = Some []) \<and> getStoredToken w = Some s \<and> s \<noteq> [] \<longrightarrow>
            headers (snd req) ''Authorization'' = Some (''Bearer '' @ s)) \<and>
         ((token = None \<or> token = Some []) \<and> (getStoredToken w = None \<or> getStoredToken w = Some []) \<longrightarrow>
            headers (snd req) ''Authorization'' = None) \<and>
         headers (snd req) ''Authorization'' \<noteq> Some ''Bearer '' \<and>
         headers (snd req) ''Authorization'' \<noteq> Some []"
proof -
  obtain init where i: "requestInit P m b token w = Inr init"
    and r: "req = (API_BASE P @ endpoint, init)"
  proof (cases "requestInit P m b token w")
    case (Inl e)
    with assms show ?thesis by (simp add: issued_apiCall)
  next
    case (Inr init)
    with assms that show ?thesis by (simp add: issued_apiCall)
  qed
  have h: "headers (snd req) = getHeaders token w"
    using i r by (simp add: requestInit_headers)
  have a: "token = Some t \<and> t \<noteq> [] \<longrightarrow>
            getHeaders token w ''Authorization'' = Some (''Bearer '' @ t)"
    by (simp add: getHeaders_explicit)
  have b: "(token = None \<or> token = Some []) \<and> getStoredToken w = Some s \<and> s \<noteq> [] \<longrightarrow>
            getHeaders token w ''Authorization'' = Some (''Bearer '' @ s)"
    using getHeaders_stored [of token w s] by simp
  have c: "(token = None \<or> token = Some []) \<and> (getStoredToken w = None \<or> getStoredToken w = Some []) \<longrightarrow>
            getHeaders token w ''Authorization'' = None"
    using getHeaders_none [of token w] by simp
  show ?thesis
    unfolding h using a b c getHeaders_never_empty [of token w] by simp
qed

theorem authorization_header_witness:
  "headers (snd (hd (issued empty_browser
      (snd (apiCall (sample_platform (Inl NonError)) ''/api/entries'' None None (Some ''abc'')
              empty_browser))))) ''Authorization'' = Some ''Bearer abc'' \<and>
   headers (snd (hd (issued (setStoredToken nat_toString ''xyz'' 0 empty_browser)
      (snd (apiCall (sample_platform (Inl NonError)) ''/api/entries'' None None None
              (setStoredToken nat_toString ''xyz'' 0 empty_browser)))))) ''Authorization''
     = Some ''Bearer xyz'' \<and>
   headers (snd (hd (issued server_side
      (snd (apiCall (sample_platform (Inl NonError)) ''/api/entries'' None None None
              server_side))))) ''Authorization'' = None"
proof -
  let ?P = "sample_platform (Inl NonError)"
  let ?w = "setStoredToken nat_toString ''xyz'' 0 empty_browser"
  have m1: "hd (issued empty_browser (snd (apiCall ?P ''/api/entries'' None None (Some ''abc'') empty_browser)))
              \<in> set (issued empty_browser (snd (apiCall ?P ''/api/entries'' None None (Some ''abc'') empty_browser)))"
    by (simp add: issued_sample_no_body)
  have m2: "hd (issued ?w (snd (apiCall ?P ''/api/entries'' None None None ?w)))
              \<in> set (issued ?w (snd (apiCall ?P ''/api/entries'' None None None ?w)))"
    by (simp add: issued_sample_no_body)
  have m3: "hd (issued server_side (snd (apiCall ?P ''/api/entries'' None None None server_side)))
              \<in> set (issued server_side (snd (apiCall ?P ''/api/entries'' None None None server_side)))"
    by (simp add: issued_sample_no_body)
  have a: "headers (snd (hd (issued empty_browser
             (snd (apiCall ?P ''/api/entries'' None None (Some ''abc'') empty_browser)))))
             ''Authorization'' = Some ''Bearer abc''"
    using authorization_header [OF m1, of "''abc''", THEN conjunct2, THEN conjunct1]
    by simp
  have b: "headers (snd (hd (issued ?w (snd (apiCall ?P ''/api/entries'' None None None ?w)))))
             ''Authorization'' = Some ''Bearer xyz''"
    using authorization_header [OF m2, of _ "''xyz''", THEN conjunct2, THEN conjunct2, THEN conjunct1]
    by (simp add: stored_after_set)
  have c: "headers (snd (hd (issued server_side
             (snd (apiCall ?P ''/api/entries'' None None None server_side)))))
             ''Authorization'' = None"
    using authorization_header [OF m3, THEN conjunct2, THEN conjunct2, THEN conjunct2, THEN conjunct1]
    by (simp add: stored_server_side)
  from a b c show ?thesis by (intro conjI)
qed

text \<open>
  Claim C7, as stated: an explicit token parameter takes precedence over the
  stored token for every value of the parameter. It fails for the empty string:
  \<^verbatim>\<open>token || getStoredToken()\<close> falls back to the stored token, and the header is
  built from the stored token.
\<close>

theorem explicit_empty_token_counterexample:
  "getHeaders (Some '''') (setStoredToken nat_toString ''stored'' 0 empty_browser) ''Authorization''
     = Some ''Bearer stored'' \<and>
   getHeaders (Some '''') (setStoredToken nat_toString ''stored'' 0 empty_browser) ''Authorization''
     \<noteq> Some (''Bearer '' @ '''')"
  by (simp add: getHeaders_def js_or_def truthy_def stored_after_set)

text \<open>
  Claim C7, amended: every non-empty explicit token parameter takes precedence
  over the stored token. Whatever the session store holds, \<^verbatim>\<open>getHeaders\<close> and
  every request of \<^verbatim>\<open>apiCall\<close> carry \<^verbatim>\<open>Bearer\<close>, a space and the explicit token.
\<close>

theorem explicit_token_precedence:
  assumes "t \<noteq> []"
  shows "getHeaders (Some t) w ''Authorization'' = Some (''Bearer '' @ t) \<and>
         (\<forall>req \<in> set (issued w (snd (apiCall P endpoint m b (Some t) w))).
            headers (snd req) ''Authorization'' = Some (''Bearer '' @ t))"
proof -
  have g: "getHeaders (Some t) w ''Authorization'' = Some (''Bearer '' @ t)"
    using assms by (rule getHeaders_explicit)
  have "headers (snd req) ''Authorization'' = Some (''Bearer '' @ t)"
    if "req \<in> set (issued w (snd (apiCall P endpoint m b (Some t) w)))" for req
  proof (cases "requestInit P m b (Some t) w")
    case (Inl e)
    with that show ?thesis by (simp add: issued_apiCall)
  next
    case (Inr init)
    with that have "req = (API_BASE P @ endpoint, init)"
      by (simp add: issued_apiCall)
    with Inr g show ?thesis
      by (simp add: requestInit_headers)
  qed
  with g show ?thesis by blast
qed

theorem explicit_token_precedence_witness:
  "getStoredToken (setStoredToken nat_toString ''stored'' 0 empty_browser) = Some ''stored'' \<and>
   getHeaders (Some ''explicit'') (setStoredToken nat_toString ''stored'' 0 empty_browser) ''Authorization''
     = Some ''Bearer explicit'' \<and>
   map (\<lambda>req. headers (snd req) ''Authorization'')
     (issued (setStoredToken nat_toString ''stored'' 0 empty_browser)
        (snd (apiCall (sample_platform (Inl NonError)) ''/api/feed'' (Some GET) None
               (Some ''explicit'') (setStoredToken nat_toString ''stored'' 0 empty_browser))))
     = [Some ''Bearer explicit'']"
proof -
  let ?w = "setStoredToken nat_toString ''stored'' 0 empty_browser"
  let ?P = "sample_platform (Inl NonError)"
  have h: "''explicit'' \<noteq> []" by simp
  note p = explicit_token_precedence [OF h, of ?w ?P "''/api/feed''" "Some GET" None]
  have s: "getStoredToken ?w = Some ''stored''"
    by (rule stored_after_set)
  have g: "getHeaders (Some ''explicit'') ?w ''Authorization'' = Some ''Bearer explicit''"
    using p [THEN conjunct1] by simp
  have "map (\<lambda>req. headers (snd req) ''Authorization'')
          (issued ?w (snd (apiCall ?P ''/api/feed'' (Some GET) None (Some ''explicit'') ?w)))
        = map (\<lambda>req. Some (''Bearer '' @ ''explicit''))
          (issued ?w (snd (apiCall ?P ''/api/feed'' (Some GET) None (Some ''explicit'') ?w)))"
    using p [THEN conjunct2] by (intro map_cong refl) blast
  then have i: "map (\<lambda>req. headers (snd req) ''Authorization'')
          (issued ?w (snd (apiCall ?P ''/api/feed'' (Some GET) None (Some ''explicit'') ?w)))
        = [Some ''Bearer explicit'']"
    by (simp add: issued_sample_no_body)
  from s g i show ?thesis by (intro conjI)
qed

subsection \<open>Expiry\<close>

lemma getHeaders_cong:
  "getStoredToken w1 = getStoredToken w2 \<Longrightarrow> getHeaders token w1 = getHeaders token w2"
  by (simp add: getHeaders_def)

lemma requestInit_cong:
  "getStoredToken w1 = getStoredToken w2 \<Longrightarrow>
     requestInit P m b token w1 = requestInit P m b token w2"
  by (simp add: requestInit_def getHeaders_cong [of w1 w2])

lemma getStoredToken_clear: "getStoredToken (clearStoredToken w) = None"
  by (simp add: getStoredToken_def clearStoredToken_def split: option.splits)

text \<open>
  Claim C9. The expiry is never consulted. Take two worlds with storage that hold
  the same token under \<^verbatim>\<open>auth_token\<close> and differ in anything else, in particular
  in the value stored under \<^verbatim>\<open>auth_expires\<close> and in the clock. With no explicit
  token, \<^verbatim>\<open>getHeaders\<close> gives the same headers in both, \<^verbatim>\<open>apiCall\<close> hands the same
  requests to \<^verbatim>\<open>fetch\<close> in both, a non-empty token is attached as
  \<^verbatim>\<open>Authorization: Bearer\<close> token, and only after \<^verbatim>\<open>clearStoredToken\<close> is the header
  gone. In the instance below the first world's clock (5000) is past the stored
  expiry (1000), the second world's clock (2000) is before its expiry (9000).
\<close>

theorem expiry_never_consulted:
  assumes "storage w1 = Some ls1" and "storage w2 = Some ls2"
    and "ls1 ''auth_token'' = Some t" and "ls2 ''auth_token'' = Some t"
  shows "getHeaders None w1 = getHeaders None w2 \<and>
         issued w1 (snd (apiCall P endpoint m b None w1)) =
           issued w2 (snd (apiCall P endpoint m b None w2)) \<and>
         (t \<noteq> [] \<longrightarrow> getHeaders None w1 ''Authorization'' = Some (''Bearer '' @ t)) \<and>
         getHeaders None (clearStoredToken w1) ''Authorization'' = None"
proof -
  have s1: "getStoredToken w1 = Some t" and s2: "getStoredToken w2 = Some t"
    using assms by (simp_all add: getStoredToken_def)
  then have eq: "getStoredToken w1 = getStoredToken w2"
    by simp
  have h: "getHeaders None w1 = getHeaders None w2"
    using eq by (rule getHeaders_cong)
  have i: "issued w1 (snd (apiCall P endpoint m b None w1)) =
             issued w2 (snd (apiCall P endpoint m b None w2))"
    by (simp add: issued_apiCall requestInit_cong [OF eq])
  have a: "t \<noteq> [] \<longrightarrow> getHeaders None w1 ''Authorization'' = Some (''Bearer '' @ t)"
    using s1 getHeaders_stored [of None w1 t] by simp
  have c: "getHeaders None (clearStoredToken w1) ''Authorization'' = None"
    using getHeaders_none [of None "clearStoredToken w1"] by (simp add: getStoredToken_clear)
  from h i a c show ?thesis by (intro conjI)
qed

theorem expiry_never_consulted_witness:
  "getHeaders None ((setStoredToken nat_toString ''tok'' 1000 empty_browser)\<lparr>clock := 5000\<rparr>) =
     getHeaders None ((setStoredToken nat_toString ''tok'' 9000 empty_browser)\<lparr>clock := 2000\<rparr>) \<and>
   getHeaders None ((setStoredToken nat_toString ''tok'' 1000 empty_browser)\<lparr>clock := 5000\<rparr>)
     ''Authorization'' = Some ''Bearer tok'' \<and>
   getHeaders None (clearStoredToken
       ((setStoredToken nat_toString ''tok'' 1000 empty_browser)\<lparr>clock := 5000\<rparr>))
     ''Authorization'' = None"
proof -
  let ?w1 = "(setStoredToken nat_toString ''tok'' 1000 empty_browser)\<lparr>clock := 5000\<rparr>"
  let ?w2 = "(setStoredToken nat_toString ''tok'' 9000 empty_browser)\<lparr>clock := 2000\<rparr>"
  have a1: "storage ?w1 = Some [''auth_token'' \<mapsto> ''tok'', ''auth_expires'' \<mapsto> nat_toString 1000]"
    by (simp add: setStoredToken_def empty_browser_def)
  have a2: "storage ?w2 = Some [''auth_token'' \<mapsto> ''tok'', ''auth_expires'' \<mapsto> nat_toString 9000]"
    by (simp add: setStoredToken_def empty_browser_def)
  have a3: "[''auth_token'' \<mapsto> ''tok'', ''auth_expires'' \<mapsto> nat_toString 1000] ''auth_token'' = Some ''tok''"
    by simp
  have a4: "[''auth_token'' \<mapsto> ''tok'', ''auth_expires'' \<mapsto> nat_toString 9000] ''auth_token'' = Some ''tok''"
    by simp
  have n: "''tok'' \<noteq> []" by simp
  note e = expiry_never_consulted [OF a1 a2 a3 a4,
      of "sample_platform (Inl NonError)" "''/api/feed''" None None]
  from e have "getHeaders None ?w1 = getHeaders None ?w2" by (rule conjunct1)
  moreover from e [THEN conjunct2, THEN conjunct2, THEN conjunct1] n
  have "getHeaders None ?w1 ''Authorization'' = Some ''Bearer tok''"
    by simp
  moreover from e [THEN conjunct2, THEN conjunct2, THEN conjunct2]
  have "getHeaders None (clearStoredToken ?w1) ''Authorization'' = None" .
  ultimately show ?thesis by (intro conjI)
qed

subsection \<open>Request body\<close>

lemma sample_stringify_login:
  "JSON_stringify (sample_platform reply) [(''username'', ''ann''), (''password'', ''pw'')] =
     Inr (''{'' @ quoted ''username'' @ '':'' @ quoted ''ann'' @ '','' @
                   quoted ''password'' @ '':'' @ quoted ''pw'' @ ''}'')"
  by (simp add: sample_platform_def sample_stringify_def)

text \<open>
  Claim C5. For every call of \<^verbatim>\<open>apiCall\<close> with a body that \<^verbatim>\<open>JSON.stringify\<close>
  serialises to \<open>s\<close>, and for every method, exactly one request is handed to
  \<^verbatim>\<open>fetch\<close>; its payload is \<open>s\<close>, the JSON serialisation of the body, and its
  headers contain \<^verbatim>\<open>Content-Type: application/json\<close>.
\<close>

theorem body_serialized_as_json:
  assumes "JSON_stringify P b = Inr s"
  shows "issued w (snd (apiCall P endpoint m (Some b) token w)) =
           [(API_BASE P @ endpoint,
             \<lparr>method' = (case m of None \<Rightarrow> GET | Some x \<Rightarrow> x),
              headers = getHeaders token w,
              body = Some s\<rparr>)] \<and>
         getHeaders token w ''Content-Type'' = Some ''application/json''"
  using assms by (simp add: issued_apiCall requestInit_def getHeaders_content_type)

theorem body_serialized_as_json_witness:
  "JSON_stringify (sample_platform (Inl NonError)) [(''username'', ''ann''), (''password'', ''pw'')] =
     Inr (''{'' @ quoted ''username'' @ '':'' @ quoted ''ann'' @ '','' @
                   quoted ''password'' @ '':'' @ quoted ''pw'' @ ''}'') \<and>
   issued empty_browser
     (snd (apiCall (sample_platform (Inl NonError)) ''/api/auth/login'' (Some POST)
            (Some [(''username'', ''ann''), (''password'', ''pw'')]) None empty_browser)) =
     [(''http://localhost:8080/api/auth/login'',
       \<lparr>method' = POST,
        headers = [''Content-Type'' \<mapsto> ''application/json''],
        body = Some (''{'' @ quoted ''username'' @ '':'' @ quoted ''ann'' @ '','' @
                           quoted ''password'' @ '':'' @ quoted ''pw'' @ ''}'')\<rparr>)]"
proof -
  have h: "JSON_stringify (sample_platform (Inl NonError)) [(''username'', ''ann''), (''password'', ''pw'')] =
     Inr (''{'' @ quoted ''username'' @ '':'' @ quoted ''ann'' @ '','' @
                   quoted ''password'' @ '':'' @ quoted ''pw'' @ ''}'')"
    by (rule sample_stringify_login)
  have g: "getHeaders None empty_browser = [''Content-Type'' \<mapsto> ''application/json'']"
    by (simp add: getHeaders_def js_or_def truthy_def stored_empty_browser)
  have u: "API_BASE (sample_platform (Inl NonError)) @ ''/api/auth/login'' = ''http://localhost:8080/api/auth/login''"
    by (simp add: API_BASE_def sample_platform_def)
  show ?thesis
    using h body_serialized_as_json [OF h, of empty_browser "''/api/auth/login''" "Some POST" None]
    by (simp add: g u)
qed

subsection \<open>Follow and unfollow\<close>

lemma sendFollowRequest_request:
  "JSON_stringify P [] = Inr s \<Longrightarrow>
   issued w (snd (sendFollowRequest P username w)) =
     [(API_BASE P @ ''/api/follow/'' @ username,
       \<lparr>method' = POST, headers = getHeaders None w, body = Some s\<rparr>)]"
  by (simp add: sendFollowRequest_def issued_apiCall requestInit_def)

lemma delete_operations_send_no_body:
  "map (body \<circ> snd) (issued w (snd (rejectFollowRequest P username w))) = [None]"
  "map (body \<circ> snd) (issued w (snd (deleteEntry P entry w))) = [None]"
  by (simp_all add: rejectFollowRequest_def deleteEntry_def issued_apiCall requestInit_def)

text \<open>
  Claim C8, as stated: Unfollow issues one \<^verbatim>\<open>DELETE\<close> request with the request body
  \<^verbatim>\<open>{}\<close>. It fails: the request of \<^verbatim>\<open>unfollow("alice")\<close> has no body at all.
\<close>

theorem unfollow_body_counterexample:
  "map (body \<circ> snd)
     (issued empty_browser (snd (unfollow (sample_platform (Inl NonError)) ''alice'' empty_browser)))
     = [None] \<and>
   map (body \<circ> snd)
     (issued empty_browser (snd (unfollow (sample_platform (Inl NonError)) ''alice'' empty_browser)))
     \<noteq> [Some ''{}'']"
  by (simp add: unfollow_def issued_apiCall requestInit_def)

text \<open>
  Claim C8, amended: for every username, Unfollow issues exactly one request, an
  HTTP \<^verbatim>\<open>DELETE\<close> to the base URL followed by \<^verbatim>\<open>/api/follow/\<close> and the username, with
  the headers of \<^verbatim>\<open>getHeaders\<close> and without a request body.
\<close>

theorem unfollow_request:
  "issued w (snd (unfollow P username w)) =
     [(API_BASE P @ ''/api/follow/'' @ username,
       \<lparr>method' = DELETE, headers = getHeaders None w, body = None\<rparr>)]"
  by (simp add: unfollow_def issued_apiCall requestInit_def)

subsection \<open>Response normalisation\<close>

lemma requestInit_no_body:
  "requestInit P m None token w =
     Inr \<lparr>method' = (case m of None \<Rightarrow> GET | Some x \<Rightarrow> x), headers = getHeaders token w, body = None\<rparr>"
  by (simp add: requestInit_def)

lemma network_sample: "network (sample_platform reply) input init = reply"
  by (simp add: sample_platform_def)

lemma fst_apiCall_thrown:
  "fst (apiCall_try P endpoint m b token w) = Inl e \<Longrightarrow>
     fst (apiCall P endpoint m b token w) = \<lparr>data = None, error = Some (catch_message e)\<rparr>"
  by (cases "apiCall_try P endpoint m b token w") (simp add: apiCall_def)

lemma fst_apiCall_returned:
  "fst (apiCall_try P endpoint m b token w) = Inr res \<Longrightarrow>
     fst (apiCall P endpoint m b token w) = res"
  by (cases "apiCall_try P endpoint m b token w") (simp add: apiCall_def)

lemma apiCall_try_not_ok:
  assumes "requestInit P m b token w = Inr init"
    and "network P (API_BASE P @ endpoint) init = Inr r"
    and "\<not> ok r"
  shows "fst (apiCall_try P endpoint m b token w) =
           (case payload r of
              Inl e \<Rightarrow> Inl e
            | Inr text \<Rightarrow>
                Inr \<lparr>data = None,
                     error = Some (if text \<noteq> [] then text
                                   else ''API error: '' @ nat_toString (status r))\<rparr>)"
  using assms
  by (simp add: apiCall_try_def fetch_def response_text_def split: sum.splits)

lemma apiCall_try_ok_json:
  assumes "requestInit P m b token w = Inr init"
    and "network P (API_BASE P @ endpoint) init = Inr r"
    and "ok r" and "content_type r = Some ct" and "str_includes ct ''application/json''"
  shows "fst (apiCall_try P endpoint m b token w) =
           (case payload r of
              Inl e \<Rightarrow> Inl e
            | Inr s \<Rightarrow>
                (case JSON_parse P s of
                   Inl e \<Rightarrow> Inl e
                 | Inr d \<Rightarrow> Inr \<lparr>data = Some (Json d), error = None\<rparr>))"
  using assms
  by (simp add: apiCall_try_def fetch_def response_json_def Let_def split: sum.splits)

lemma apiCall_try_ok_text:
  assumes "requestInit P m b token w = Inr init"
    and "network P (API_BASE P @ endpoint) init = Inr r"
    and "ok r"
    and "content_type r = None \<or> (\<exists>ct. content_type r = Some ct \<and> \<not> str_includes ct ''application/json'')"
  shows "fst (apiCall_try P endpoint m b token w) =
           (case payload r of
              Inl e \<Rightarrow> Inl e
            | Inr s \<Rightarrow> Inr \<lparr>data = Some (Text s), error = None\<rparr>)"
  using assms
  by (auto simp add: apiCall_try_def fetch_def response_text_def Let_def split: sum.splits)

text \<open>
  Claim C2. When the request is handed to \<^verbatim>\<open>fetch\<close> and the response has a
  non-success status (outside 200 to 299) and the body text \<open>text\<close>, \<^verbatim>\<open>apiCall\<close>
  returns \<^verbatim>\<open>{ error: t }\<close> where \<open>t\<close> is \<open>text\<close> if that is non-empty and otherwise
  \<^verbatim>\<open>API error:\<close>, a space and the status in decimal. In the instances below a 404
  with body \<^verbatim>\<open>Not found\<close> gives \<^verbatim>\<open>{ error: "Not found" }\<close> and a 500 with an empty
  body gives \<^verbatim>\<open>{ error: "API error: 500" }\<close>.
\<close>

theorem non_success_error:
  assumes "requestInit P m b token w = Inr init"
    and "network P (API_BASE P @ endpoint) init = Inr r"
    and "status r < 200 \<or> 299 < status r"
    and "payload r = Inr text"
  shows "fst (apiCall P endpoint m b token w) =
           \<lparr>data = None,
            error = Some (if text = [] then ''API error: '' @ nat_toString (status r) else text)\<rparr>"
proof -
  have "\<not> ok r"
    using assms(3) by (auto simp add: ok_def)
  with assms have "fst (apiCall_try P endpoint m b token w) =
      Inr \<lparr>data = None,
           error = Some (if text = [] then ''API error: '' @ nat_toString (status r) else text)\<rparr>"
    by (simp add: apiCall_try_not_ok)
  then show ?thesis
    by (rule fst_apiCall_returned)
qed

theorem non_success_error_witness:
  "fst (apiCall
         (sample_platform (Inr \<lparr>status = 404, content_type = Some ''text/plain'', payload = Inr ''Not found''\<rparr>))
         ''/api/entries/1'' (Some GET) None None empty_browser)
     = \<lparr>data = None, error = Some ''Not found''\<rparr> \<and>
   fst (apiCall
         (sample_platform (Inr \<lparr>status = 500, content_type = None, payload = Inr []\<rparr>))
         ''/api/entries/1'' (Some GET) None None empty_browser)
     = \<lparr>data = None, error = Some ''API error: 500''\<rparr>"
proof -
  let ?r1 = "\<lparr>status = 404, content_type = Some ''text/plain'', payload = Inr ''Not found''\<rparr>"
  let ?r2 = "\<lparr>status = 500, content_type = None, payload = Inr []\<rparr> :: response"
  let ?init = "\<lparr>method' = GET, headers = getHeaders None empty_browser, body = None\<rparr>"
  have d: "nat_toString 500 = ''500''"
    by (simp add: nat_toString.simps digit_char_def)
  have i1: "requestInit (sample_platform (Inr ?r1)) (Some GET) None None empty_browser = Inr ?init"
    by (simp add: requestInit_no_body)
  have i2: "requestInit (sample_platform (Inr ?r2)) (Some GET) None None empty_browser = Inr ?init"
    by (simp add: requestInit_no_body)
  have n1: "network (sample_platform (Inr ?r1))
              (API_BASE (sample_platform (Inr ?r1)) @ ''/api/entries/1'') ?init = Inr ?r1"
    by (rule network_sample)
  have n2: "network (sample_platform (Inr ?r2))
              (API_BASE (sample_platform (Inr ?r2)) @ ''/api/entries/1'') ?init = Inr ?r2"
    by (rule network_sample)
  have s1: "status ?r1 < 200 \<or> 299 < status ?r1" by simp
  have s2: "status ?r2 < 200 \<or> 299 < status ?r2" by simp
  have p1: "payload ?r1 = Inr ''Not found''" by simp
  have p2: "payload ?r2 = Inr []" by simp
  have a: "fst (apiCall (sample_platform (Inr ?r1)) ''/api/entries/1'' (Some GET) None None empty_browser)
             = \<lparr>data = None, error = Some ''Not found''\<rparr>"
    using non_success_error [OF i1 n1 s1 p1] by simp
  have b: "fst (apiCall (sample_platform (Inr ?r2)) ''/api/entries/1'' (Some GET) None None empty_browser)
             = \<lparr>data = None, error = Some ''API error: 500''\<rparr>"
    using non_success_error [OF i2 n2 s2 p2] by (simp add: d)
  from a b show ?thesis by (intro conjI)
qed

lemma sample_parse_entry:
  "JSON_parse (sample_platform reply)
     (''{'' @ quoted ''id'' @ '':'' @ quoted ''1'' @ '','' @ quoted ''title'' @ '':'' @ quoted ''x'' @ ''}'')
     = Inr [(''id'', ''1''), (''title'', ''x'')]"
  by (simp add: sample_platform_def sample_parse_def)

lemma sample_parse_garbage:
  "JSON_parse (sample_platform reply) ''<html>'' = Inl (ErrorObj ''Unexpected token'')"
  by (simp add: sample_platform_def sample_parse_def quoted_def)

text \<open>
  Claim C3. When the response has a success status (200 to 299), a
  \<^verbatim>\<open>Content-Type\<close> header \<open>ct\<close> and the body text \<open>s\<close>: if \<open>ct\<close> contains
  \<^verbatim>\<open>application/json\<close> as a substring and \<open>s\<close> parses as JSON to \<open>v\<close>, \<^verbatim>\<open>apiCall\<close> returns
  \<^verbatim>\<open>{ data: v }\<close>; if \<open>ct\<close> does not contain it, \<^verbatim>\<open>apiCall\<close> returns \<^verbatim>\<open>{ data: s }\<close>, the raw
  text, unvalidated. The first instance below is the spec's example document.
\<close>

theorem success_data:
  assumes "requestInit P m b token w = Inr init"
    and "network P (API_BASE P @ endpoint) init = Inr r"
    and "200 \<le> status r \<and> status r \<le> 299"
    and "content_type r = Some ct"
    and "payload r = Inr s"
  shows "(sublist ''application/json'' ct \<and> JSON_parse P s = Inr v \<longrightarrow>
            fst (apiCall P endpoint m b token w) = \<lparr>data = Some (Json v), error = None\<rparr>) \<and>
         (\<not> sublist ''application/json'' ct \<longrightarrow>
            fst (apiCall P endpoint m b token w) = \<lparr>data = Some (Text s), error = None\<rparr>)"
proof -
  have k: "ok r"
    using assms(3) by (simp add: ok_def)
  have json: "fst (apiCall P endpoint m b token w) = \<lparr>data = Some (Json v), error = None\<rparr>"
    if "sublist ''application/json'' ct \<and> JSON_parse P s = Inr v"
  proof -
    from that have "str_includes ct ''application/json''" and "JSON_parse P s = Inr v"
      by (simp_all add: str_includes_sublist)
    with assms k have "fst (apiCall_try P endpoint m b token w) =
        Inr \<lparr>data = Some (Json v), error = None\<rparr>"
      by (simp add: apiCall_try_ok_json)
    then show ?thesis
      by (rule fst_apiCall_returned)
  qed
  have raw: "fst (apiCall P endpoint m b token w) = \<lparr>data = Some (Text s), error = None\<rparr>"
    if "\<not> sublist ''application/json'' ct"
  proof -
    from that have "\<not> str_includes ct ''application/json''"
      by (simp add: str_includes_sublist)
    with assms k have "fst (apiCall_try P endpoint m b token w) =
        Inr \<lparr>data = Some (Text s), error = None\<rparr>"
      by (simp add: apiCall_try_ok_text)
    then show ?thesis
      by (rule fst_apiCall_returned)
  qed
  from json raw show ?thesis by blast
qed

theorem success_data_witness:
  "fst (apiCall
         (sample_platform (Inr \<lparr>status = 200, content_type = Some ''application/json'',
            payload = Inr (''{'' @ quoted ''id'' @ '':'' @ quoted ''1'' @ '','' @
                                  quoted ''title'' @ '':'' @ quoted ''x'' @ ''}'')\<rparr>))
         ''/api/entries/1'' (Some GET) None None empty_browser)
     = \<lparr>data = Some (Json [(''id'', ''1''), (''title'', ''x'')]), error = None\<rparr> \<and>
   fst (apiCall
         (sample_platform (Inr \<lparr>status = 200, content_type = Some ''text/plain'',
            payload = Inr ''hello''\<rparr>))
         ''/api/entries/1'' (Some GET) None None empty_browser)
     = \<lparr>data = Some (Text ''hello''), error = None\<rparr>"
proof -
  let ?doc = "''{'' @ quoted ''id'' @ '':'' @ quoted ''1'' @ '','' @ quoted ''title'' @ '':'' @ quoted ''x'' @ ''}''"
  let ?r1 = "\<lparr>status = 200, content_type = Some ''application/json'', payload = Inr ?doc\<rparr>"
  let ?r2 = "\<lparr>status = 200, content_type = Some ''text/plain'', payload = Inr ''hello''\<rparr>"
  let ?init = "\<lparr>method' = GET, headers = getHeaders None empty_browser, body = None\<rparr>"
  have i1: "requestInit (sample_platform (Inr ?r1)) (Some GET) None None empty_browser = Inr ?init"
    by (simp add: requestInit_no_body)
  have i2: "requestInit (sample_platform (Inr ?r2)) (Some GET) None None empty_browser = Inr ?init"
    by (simp add: requestInit_no_body)
  have n1: "network (sample_platform (Inr ?r1))
              (API_BASE (sample_platform (Inr ?r1)) @ ''/api/entries/1'') ?init = Inr ?r1"
    by (rule network_sample)
  have n2: "network (sample_platform (Inr ?r2))
              (API_BASE (sample_platform (Inr ?r2)) @ ''/api/entries/1'') ?init = Inr ?r2"
    by (rule network_sample)
  have s1: "200 \<le> status ?r1 \<and> status ?r1 \<le> 299" by simp
  have s2: "200 \<le> status ?r2 \<and> status ?r2 \<le> 299" by simp
  have c1: "content_type ?r1 = Some ''application/json''" by simp
  have c2: "content_type ?r2 = Some ''text/plain''" by simp
  have p1: "payload ?r1 = Inr ?doc" by simp
  have p2: "payload ?r2 = Inr ''hello''" by simp
  have j1: "sublist ''application/json'' ''application/json''"
    by simp
  have j2: "\<not> sublist ''application/json'' ''text/plain''"
    unfolding str_includes_sublist [symmetric] by simp
  have q: "JSON_parse (sample_platform (Inr ?r1)) ?doc = Inr [(''id'', ''1''), (''title'', ''x'')]"
    by (rule sample_parse_entry)
  have a: "fst (apiCall (sample_platform (Inr ?r1)) ''/api/entries/1'' (Some GET) None None empty_browser)
             = \<lparr>data = Some (Json [(''id'', ''1''), (''title'', ''x'')]), error = None\<rparr>"
    using success_data [OF i1 n1 s1 c1 p1, THEN conjunct1] j1 q by blast
  have b: "fst (apiCall (sample_platform (Inr ?r2)) ''/api/entries/1'' (Some GET) None None empty_browser)
             = \<lparr>data = Some (Text ''hello''), error = None\<rparr>"
    using success_data [OF i2 n2 s2 c2 p2, THEN conjunct2] j2 by blast
  from a b show ?thesis by (intro conjI)
qed

text \<open>
  Claim C10. When the response has a success status and no \<^verbatim>\<open>Content-Type\<close> header
  at all, the \<^verbatim>\<open>try\<close> block of \<^verbatim>\<open>apiCall\<close> throws nothing and takes the raw-text
  branch: \<^verbatim>\<open>apiCall\<close> returns \<^verbatim>\<open>{ data: s }\<close> with \<open>s\<close> the body text.
\<close>

theorem success_without_content_type:
  assumes "requestInit P m b token w = Inr init"
    and "network P (API_BASE P @ endpoint) init = Inr r"
    and "200 \<le> status r \<and> status r \<le> 299"
    and "content_type r = None"
    and "payload r = Inr s"
  shows "fst (apiCall_try P endpoint m b token w) = Inr \<lparr>data = Some (Text s), error = None\<rparr> \<and>
         fst (apiCall P endpoint m b token w) = \<lparr>data = Some (Text s), error = None\<rparr>"
proof -
  have k: "ok r"
    using assms(3) by (simp add: ok_def)
  with assms have t: "fst (apiCall_try P endpoint m b token w) =
      Inr \<lparr>data = Some (Text s), error = None\<rparr>"
    by (simp add: apiCall_try_ok_text)
  from t fst_apiCall_returned [OF t] show ?thesis by (intro conjI)
qed

theorem success_without_content_type_witness:
  "fst (apiCall
         (sample_platform (Inr \<lparr>status = 204, content_type = None, payload = Inr ''done''\<rparr>))
         ''/api/entries/1'' (Some DELETE) None None empty_browser)
     = \<lparr>data = Some (Text ''done''), error = None\<rparr>"
proof -
  let ?r = "\<lparr>status = 204, content_type = None, payload = Inr ''done''\<rparr>"
  let ?init = "\<lparr>method' = DELETE, headers = getHeaders None empty_browser, body = None\<rparr>"
  have i: "requestInit (sample_platform (Inr ?r)) (Some DELETE) None None empty_browser = Inr ?init"
    by (simp add: requestInit_no_body)
  have n: "network (sample_platform (Inr ?r))
              (API_BASE (sample_platform (Inr ?r)) @ ''/api/entries/1'') ?init = Inr ?r"
    by (rule network_sample)
  have s: "200 \<le> status ?r \<and> status ?r \<le> 299" by simp
  have c: "content_type ?r = None" by simp
  have p: "payload ?r = Inr ''done''" by simp
  show ?thesis
    using success_without_content_type [OF i n s c p] by (rule conjunct2)
qed

subsection \<open>Thrown values\<close>

lemma apiCall_try_stringify_throws:
  "JSON_stringify P x = Inl e \<Longrightarrow> fst (apiCall_try P endpoint m (Some x) token w) = Inl e"
  by (simp add: apiCall_try_def requestInit_def)

lemma apiCall_try_network_throws:
  "requestInit P m b token w = Inr init \<Longrightarrow> network P (API_BASE P @ endpoint) init = Inl e
     \<Longrightarrow> fst (apiCall_try P endpoint m b token w) = Inl e"
  by (simp add: apiCall_try_def fetch_def)

lemma apiCall_try_payload_throws:
  assumes "requestInit P m b token w = Inr init"
    and "network P (API_BASE P @ endpoint) init = Inr r"
    and "payload r = Inl e"
  shows "fst (apiCall_try P endpoint m b token w) = Inl e"
  using assms
  by (simp add: apiCall_try_def fetch_def response_text_def response_json_def Let_def
      split: option.splits)

text \<open>
  Claim C4. \<^verbatim>\<open>apiCall\<close> propagates no exception: its result is always an
  \<^verbatim>\<open>ApiResponse\<close>. Whenever a value \<open>e\<close> is thrown inside the \<^verbatim>\<open>try\<close> block, the result
  is \<^verbatim>\<open>{ error: m }\<close> where \<open>m\<close> is the message of \<open>e\<close> if \<open>e\<close> is an \<^verbatim>\<open>Error\<close> and
  \<^verbatim>\<open>Unknown error\<close> otherwise. That is so in particular when \<^verbatim>\<open>fetch\<close> throws (a
  network failure), when the JSON body of a success response fails to parse,
  when reading the response body fails, and when \<^verbatim>\<open>JSON.stringify\<close> throws on
  the request body. In the first instance below a network error with the
  message \<^verbatim>\<open>network down\<close> gives \<^verbatim>\<open>{ error: "network down" }\<close>.
\<close>

theorem thrown_becomes_error:
  "(fst (apiCall_try P endpoint m b token w) = Inl e \<longrightarrow>
      fst (apiCall P endpoint m b token w) =
        \<lparr>data = None,
         error = Some (case e of ErrorObj msg \<Rightarrow> msg | NonError \<Rightarrow> ''Unknown error'')\<rparr>) \<and>
   (requestInit P m b token w = Inr init \<and> network P (API_BASE P @ endpoint) init = Inl e \<longrightarrow>
      fst (apiCall P endpoint m b token w) =
        \<lparr>data = None,
         error = Some (case e of ErrorObj msg \<Rightarrow> msg | NonError \<Rightarrow> ''Unknown error'')\<rparr>) \<and>
   (requestInit P m b token w = Inr init \<and> network P (API_BASE P @ endpoint) init = Inr r \<and>
    200 \<le> status r \<and> status r \<le> 299 \<and> content_type r = Some ct \<and>
    sublist ''application/json'' ct \<and> payload r = Inr s \<and> JSON_parse P s = Inl e \<longrightarrow>
      fst (apiCall P endpoint m b token w) =
        \<lparr>data = None,
         error = Some (case e of ErrorObj msg \<Rightarrow> msg | NonError \<Rightarrow> ''Unknown error'')\<rparr>) \<and>
   (requestInit P m b token w = Inr init \<and> network P (API_BASE P @ endpoint) init = Inr r \<and>
    payload r = Inl e \<longrightarrow>
      fst (apiCall P endpoint m b token w) =
        \<lparr>data = None,
         error = Some (case e of ErrorObj msg \<Rightarrow> msg | NonError \<Rightarrow> ''Unknown error'')\<rparr>) \<and>
   (b = Some x \<and> JSON_stringify P x = Inl e \<longrightarrow>
      fst (apiCall P endpoint m b token w) =
        \<lparr>data = None,
         error = Some (case e of ErrorObj msg \<Rightarrow> msg | NonError \<Rightarrow> ''Unknown error'')\<rparr>)"
proof -
  let ?err = "\<lparr>data = None,
         error = Some (case e of ErrorObj msg \<Rightarrow> msg | NonError \<Rightarrow> ''Unknown error'')\<rparr>"
  have caught: "fst (apiCall P endpoint m b token w) = ?err"
    if "fst (apiCall_try P endpoint m b token w) = Inl e"
    using fst_apiCall_thrown [OF that] by (simp add: catch_message_def)
  have c2: "fst (apiCall_try P endpoint m b token w) = Inl e"
    if "requestInit P m b token w = Inr init \<and> network P (API_BASE P @ endpoint) init = Inl e"
    using that by (simp add: apiCall_try_network_throws)
  have c3: "fst (apiCall_try P endpoint m b token w) = Inl e"
    if a: "requestInit P m b token w = Inr init \<and> network P (API_BASE P @ endpoint) init = Inr r \<and>
      200 \<le> status r \<and> status r \<le> 299 \<and> content_type r = Some ct \<and>
      sublist ''application/json'' ct \<and> payload r = Inr s \<and> JSON_parse P s = Inl e"
  proof -
    from a have "ok r" and "str_includes ct ''application/json''"
      by (simp_all add: ok_def str_includes_sublist)
    with a show ?thesis
      by (simp add: apiCall_try_ok_json)
  qed
  have c4: "fst (apiCall_try P endpoint m b token w) = Inl e"
    if "requestInit P m b token w = Inr init \<and> network P (API_BASE P @ endpoint) init = Inr r \<and>
      payload r = Inl e"
    using that by (simp add: apiCall_try_payload_throws)
  have c5: "fst (apiCall_try P endpoint m b token w) = Inl e"
    if "b = Some x \<and> JSON_stringify P x = Inl e"
    using that by (simp add: apiCall_try_stringify_throws)
  show ?thesis
    using caught c2 c3 c4 c5 by (intro conjI impI) blast+
qed

theorem thrown_becomes_error_witness:
  "fst (apiCall (sample_platform (Inl (ErrorObj ''network down'')))
         ''/api/feed'' (Some GET) None None empty_browser)
     = \<lparr>data = None, error = Some ''network down''\<rparr> \<and>
   fst (apiCall (sample_platform (Inl NonError))
         ''/api/feed'' (Some GET) None None empty_browser)
     = \<lparr>data = None, error = Some ''Unknown error''\<rparr> \<and>
   fst (apiCall
         (sample_platform (Inr \<lparr>status = 200, content_type = Some ''application/json'',
            payload = Inr ''<html>''\<rparr>))
         ''/api/feed'' (Some GET) None None empty_browser)
     = \<lparr>data = None, error = Some ''Unexpected token''\<rparr> \<and>
   fst (apiCall
         (sample_platform (Inr \<lparr>status = 200, content_type = None,
            payload = Inl (ErrorObj ''body stream aborted'')\<rparr>))
         ''/api/feed'' (Some GET) None None empty_browser)
     = \<lparr>data = None, error = Some ''body stream aborted''\<rparr> \<and>
   fst (apiCall
         ((sample_platform (Inl NonError))\<lparr>JSON_stringify := \<lambda>b. Inl (ErrorObj ''cyclic object value'')\<rparr>)
         ''/api/entries'' (Some POST) (Some []) None empty_browser)
     = \<lparr>data = None, error = Some ''cyclic object value''\<rparr>"
proof -
  let ?init = "\<lparr>method' = GET, headers = getHeaders None empty_browser, body = None\<rparr>"
  let ?down = "sample_platform (Inl (ErrorObj ''network down''))"
  let ?odd = "sample_platform (Inl NonError)"
  let ?r3 = "\<lparr>status = 200, content_type = Some ''application/json'', payload = Inr ''<html>''\<rparr>"
  let ?r4 = "\<lparr>status = 200, content_type = None, payload = Inl (ErrorObj ''body stream aborted'')\<rparr>"
  let ?cyc = "(sample_platform (Inl NonError))\<lparr>JSON_stringify := \<lambda>b. Inl (ErrorObj ''cyclic object value'')\<rparr>"
  have i: "requestInit (sample_platform reply) (Some GET) None None empty_browser = Inr ?init" for reply
    by (simp add: requestInit_no_body)
  have n: "network (sample_platform reply) (API_BASE (sample_platform reply) @ ''/api/feed'') ?init = reply"
    for reply
    by (rule network_sample)
  have j: "sublist ''application/json'' ''application/json''"
    by simp
  have t: "fst (apiCall_try ?odd ''/api/feed'' (Some GET) None None empty_browser) = Inl NonError"
    using i n by (rule apiCall_try_network_throws)
  have p: "JSON_parse (sample_platform (Inr ?r3)) ''<html>'' = Inl (ErrorObj ''Unexpected token'')"
    by (rule sample_parse_garbage)
  have q: "JSON_stringify ?cyc [] = Inl (ErrorObj ''cyclic object value'')"
    by simp
  have a: "fst (apiCall ?down ''/api/feed'' (Some GET) None None empty_browser)
             = \<lparr>data = None, error = Some ''network down''\<rparr>"
    using thrown_becomes_error [of ?down "''/api/feed''" "Some GET" None None empty_browser
        "ErrorObj ''network down''" ?init, THEN conjunct2, THEN conjunct1] i n
    by simp
  have b: "fst (apiCall ?odd ''/api/feed'' (Some GET) None None empty_browser)
             = \<lparr>data = None, error = Some ''Unknown error''\<rparr>"
    using thrown_becomes_error [of ?odd "''/api/feed''" "Some GET" None None empty_browser
        NonError, THEN conjunct1] t
    by simp
  have c: "fst (apiCall (sample_platform (Inr ?r3)) ''/api/feed'' (Some GET) None None empty_browser)
             = \<lparr>data = None, error = Some ''Unexpected token''\<rparr>"
    using thrown_becomes_error [of "sample_platform (Inr ?r3)" "''/api/feed''" "Some GET" None None
        empty_browser "ErrorObj ''Unexpected token''" ?init ?r3 "''application/json''" "''<html>''",
        THEN conjunct2, THEN conjunct2, THEN conjunct1] i n j p
    by simp
  have d: "fst (apiCall (sample_platform (Inr ?r4)) ''/api/feed'' (Some GET) None None empty_browser)
             = \<lparr>data = None, error = Some ''body stream aborted''\<rparr>"
    using thrown_becomes_error [of "sample_platform (Inr ?r4)" "''/api/feed''" "Some GET" None None
        empty_browser "ErrorObj ''body stream aborted''" ?init ?r4,
        THEN conjunct2, THEN conjunct2, THEN conjunct2, THEN conjunct1] i n
    by simp
  have e: "fst (apiCall ?cyc ''/api/entries'' (Some POST) (Some []) None empty_browser)
             = \<lparr>data = None, error = Some ''cyclic object value''\<rparr>"
    using thrown_becomes_error [of ?cyc "''/api/entries''" "Some POST" "Some []" None
        empty_browser "ErrorObj ''cyclic object value''" _ _ _ _ "[]",
        THEN conjunct2, THEN conjunct2, THEN conjunct2, THEN conjunct2] q
    by simp
  from a b c d e show ?thesis by (intro conjI)
qed

end
